theory Spec2Isabelle
  imports Complex_Main
begin

section \<open>Data model of \<open>Menu_Optimization.py\<close>\<close>

text \<open>
  The item table is a pandas data frame; it is modelled as the list of its rows, in row
  order. Prices are Python floats in the source; here they are exact rationals, so every
  statement below is about the arithmetic the floats approximate.

  A category cell is either a text label or missing. \<open>pd.read_excel\<close> (line 8) turns an
  empty cell into NaN, for which Python's \<open>==\<close> is false even against itself, whereas
  \<open>unique()\<close> (line 45) keeps one NaN among the distinct values. \<open>Label ''''\<close> is the blank
  label, \<open>Missing\<close> the NaN of an empty cell.
\<close>

datatype category = Label string | Missing

record menu_row =
  RestaurantID :: string
  MenuItem :: string
  MenuCategory :: category
  Price :: rat
  Profitability :: string
  SellingPrice :: rat

text \<open>The dictionary appended to \<open>selected_items\<close> (lines 57 to 63).\<close>

record selected_item =
  sel_MenuItem :: string
  sel_Category :: category
  sel_Price :: rat
  sel_Profitability :: string
  sel_SellingPrice :: rat

text \<open>\<open>row.MenuCategory == category\<close> (line 48).\<close>

fun cat_eq :: "category \<Rightarrow> category \<Rightarrow> bool" where
  "cat_eq (Label a) (Label b) = (a = b)"
| "cat_eq _ _ = False"

text \<open>\<open>Series.unique()\<close>: the distinct values in order of first appearance.\<close>

definition unique :: "'a list \<Rightarrow> 'a list" where
  "unique xs = rev (remdups (rev xs))"

section \<open>The modelling layer: linear expressions, constraints, problems\<close>

text \<open>
  A decision variable of \<open>menu_vars\<close> is identified by its dictionary key, the
  \<open>MenuItem\<close> of a row: two rows with the same \<open>MenuItem\<close> share one variable. An
  \<open>lpSum\<close> is kept as the list of its terms (variable, coefficient).
\<close>

type_synonym LpAffineExpression = "(string \<times> rat) list"

datatype sense = LpConstraintLE | LpConstraintGE

record LpConstraint =
  c_expr :: LpAffineExpression
  c_sense :: sense
  c_rhs :: rat

record LpProblem =
  lp_name :: string
  objective :: LpAffineExpression
  constraints :: "LpConstraint list"

text \<open>Value of a linear expression under an assignment of the variables.\<close>

definition expr_value :: "(string \<Rightarrow> rat) \<Rightarrow> LpAffineExpression \<Rightarrow> rat" where
  "expr_value x e = sum_list (map (\<lambda>(v, c). x v * c) e)"

definition satisfies :: "(string \<Rightarrow> rat) \<Rightarrow> LpConstraint \<Rightarrow> bool" where
  "satisfies x c =
     (case c_sense c of
        LpConstraintLE \<Rightarrow> expr_value x (c_expr c) \<le> c_rhs c
      | LpConstraintGE \<Rightarrow> expr_value x (c_expr c) \<ge> c_rhs c)"

definition feasible_at :: "LpProblem \<Rightarrow> (string \<Rightarrow> rat) \<Rightarrow> bool" where
  "feasible_at p x = list_all (satisfies x) (constraints p)"

text \<open>The variables of a problem are those occurring in its objective and constraints.\<close>

definition lp_vars :: "LpProblem \<Rightarrow> string list" where
  "lp_vars p = remdups (map fst (objective p) @ concat (map (\<lambda>c. map fst (c_expr c)) (constraints p)))"

text \<open>
  A binary assignment is given by the list of the variables set to 1. Every binary
  assignment of the variables of \<open>p\<close> agrees on them with the indicator of a member of
  \<open>selections p\<close> (lemma \<open>binary_assignment_is_selection\<close>).
\<close>

definition indicator :: "string list \<Rightarrow> string \<Rightarrow> rat" where
  "indicator S v = (if v \<in> set S then 1 else 0)"

definition selections :: "LpProblem \<Rightarrow> string list list" where
  "selections p = subseqs (lp_vars p)"

definition feasible_selections :: "LpProblem \<Rightarrow> string list list" where
  "feasible_selections p = filter (\<lambda>S. feasible_at p (indicator S)) (selections p)"

definition lp_feasible :: "LpProblem \<Rightarrow> bool" where
  "lp_feasible p = (feasible_selections p \<noteq> [])"

text \<open>
  The product \<open>menu_vars[k] * c\<close> (lines 37 and 41): multiplying a variable by 0 gives the
  expression without any term, so a row whose coefficient is 0 contributes nothing to the
  sum, not even its variable.
\<close>

definition lp_term :: "string \<Rightarrow> rat \<Rightarrow> LpAffineExpression" where
  "lp_term k c = (if c = 0 then [] else [(k, c)])"

text \<open>
  The value of an expression after the solve: the constant plus the sum of
  \<open>varValue * coefficient\<close>, or \<open>None\<close> as soon as a variable has no value.
\<close>

fun lp_expr_value :: "(string \<Rightarrow> rat option) \<Rightarrow> LpAffineExpression \<Rightarrow> rat \<Rightarrow> rat option" where
  "lp_expr_value vals [] s = Some s"
| "lp_expr_value vals ((v, x) # e) s =
     (case vals v of None \<Rightarrow> None | Some a \<Rightarrow> lp_expr_value vals e (s + a * x))"

text \<open>
  \<open>pulp.value(prob.objective)\<close> (line 65). An objective without any term is given a dummy
  variable for the solve; that variable never receives a value, so the value of such an
  objective is \<open>None\<close>.
\<close>

definition objective_value :: "(string \<Rightarrow> rat option) \<Rightarrow> LpAffineExpression \<Rightarrow> rat option" where
  "objective_value vals e = (if e = [] then None else lp_expr_value vals e 0)"

section \<open>The solver\<close>

text \<open>
  \<open>prob.solve()\<close> (line 51) runs an integer-programming solver that is not part of the
  repository. It is a parameter of the model: a function from the problem to either a
  solver failure (the exception \<open>solve\<close> raises, which \<open>optimize_menu\<close> does not catch) or
  the \<open>varValue\<close> of each variable after the solve.
\<close>

datatype error = PulpSolverError

type_synonym solver = "LpProblem \<Rightarrow> error + (string \<Rightarrow> rat option)"

text \<open>
  Modelled from the spec: the integer-programming solver that \<open>prob.solve()\<close> runs (CBC,
  through pulp) is not in the repository. The spec asks for an exact solve: on a problem
  that has a feasible binary assignment the solver returns one of maximal objective.
  Nothing is said of the values it leaves in the variables of an infeasible problem; the
  source never reads the status that would tell the two cases apart.
\<close>

definition optimal_solution :: "LpProblem \<Rightarrow> (string \<Rightarrow> rat option) \<Rightarrow> bool" where
  "optimal_solution p vals =
     (\<exists>S \<in> set (selections p).
        (\<forall>v \<in> set (lp_vars p). vals v = Some (indicator S v)) \<and>
        feasible_at p (indicator S) \<and>
        (\<forall>T \<in> set (selections p). feasible_at p (indicator T) \<longrightarrow>
           expr_value (indicator T) (objective p) \<le> expr_value (indicator S) (objective p)))"

definition exact_solver :: "solver \<Rightarrow> bool" where
  "exact_solver solve = (\<forall>p. lp_feasible p \<longrightarrow> (\<exists>vals. solve p = Inr vals \<and> optimal_solution p vals))"

text \<open>
  A reference solver by exhaustive enumeration, used to run the model on concrete tables.
  On an infeasible problem it leaves every variable without a value.
\<close>

definition better :: "LpProblem \<Rightarrow> string list \<Rightarrow> string list \<Rightarrow> string list" where
  "better p T B =
     (if expr_value (indicator B) (objective p) < expr_value (indicator T) (objective p) then T else B)"

definition exact_solve :: solver where
  "exact_solve p =
     (case feasible_selections p of
        [] \<Rightarrow> Inr (\<lambda>v. None)
      | S # Ss \<Rightarrow>
          Inr (\<lambda>v. if v \<in> set (lp_vars p) then Some (indicator (fold (better p) Ss S) v) else None))"

text \<open>
  A solver that is exact on a feasible problem and, on an infeasible one, stops with the
  given values left in the variables.
\<close>

definition cbc_leaving :: "(string \<times> rat) list \<Rightarrow> solver" where
  "cbc_leaving left p = (if lp_feasible p then exact_solve p else Inr (map_of left))"

section \<open>\<open>optimize_menu\<close>\<close>

text \<open>Lines 28 to 48: the problem built for the filtered rows.\<close>

definition objective_expr :: "menu_row list \<Rightarrow> LpAffineExpression" where
  "objective_expr restaurant_df =
     concat (map (\<lambda>row. lp_term (MenuItem row) (SellingPrice row)) restaurant_df)"

definition budget_constraint :: "menu_row list \<Rightarrow> rat \<Rightarrow> LpConstraint" where
  "budget_constraint restaurant_df max_budget =
     \<lparr>c_expr = concat (map (\<lambda>row. lp_term (MenuItem row) (Price row)) restaurant_df),
      c_sense = LpConstraintLE, c_rhs = max_budget\<rparr>"

definition category_constraint :: "menu_row list \<Rightarrow> rat \<Rightarrow> category \<Rightarrow> LpConstraint" where
  "category_constraint restaurant_df min_items_per_category category =
     \<lparr>c_expr = map (\<lambda>row. (MenuItem row, 1))
                 (filter (\<lambda>row. cat_eq (MenuCategory row) category) restaurant_df),
      c_sense = LpConstraintGE, c_rhs = min_items_per_category\<rparr>"

definition build_problem :: "menu_row list \<Rightarrow> string \<Rightarrow> rat \<Rightarrow> LpProblem" where
  "build_problem restaurant_df restaurant_id max_budget =
     (let min_items_per_category = 1 in
      \<lparr>lp_name = ''Menu_Optimization_'' @ restaurant_id,
       objective = objective_expr restaurant_df,
       constraints =
         budget_constraint restaurant_df max_budget #
         map (category_constraint restaurant_df min_items_per_category)
             (unique (map MenuCategory restaurant_df))\<rparr>)"

text \<open>Lines 54 to 63: a row is emitted when the value of its variable equals 1.\<close>

definition to_item :: "menu_row \<Rightarrow> selected_item" where
  "to_item row =
     \<lparr>sel_MenuItem = MenuItem row, sel_Category = MenuCategory row, sel_Price = Price row,
      sel_Profitability = Profitability row, sel_SellingPrice = SellingPrice row\<rparr>"

definition selected_items :: "menu_row list \<Rightarrow> (string \<Rightarrow> rat option) \<Rightarrow> selected_item list" where
  "selected_items restaurant_df vals =
     map to_item (filter (\<lambda>row. vals (MenuItem row) = Some 1) restaurant_df)"

definition optimize_menu ::
  "solver \<Rightarrow> menu_row list \<Rightarrow> string \<Rightarrow> rat \<Rightarrow> error + (selected_item list \<times> rat option)" where
  "optimize_menu solve df restaurant_id max_budget =
     (let restaurant_df = filter (\<lambda>row. RestaurantID row = restaurant_id) df;
          prob = build_problem restaurant_df restaurant_id max_budget
      in case solve prob of
           Inl e \<Rightarrow> Inl e
         | Inr vals \<Rightarrow> Inr (selected_items restaurant_df vals, objective_value vals (objective prob)))"

section \<open>The constraints in terms of rows\<close>

text \<open>
  A candidate subset of the filtered rows is given by the list \<open>S\<close> of the item
  identifiers it contains. Constraint A bounds the summed \<open>Price\<close> of the chosen rows by
  the budget; Constraint B asks, for every distinct category of the filtered rows, the
  missing label counting as a category of its own, for at least one chosen row of that
  category.
\<close>

definition chosen_rows :: "string list \<Rightarrow> menu_row list \<Rightarrow> menu_row list" where
  "chosen_rows S restaurant_df = filter (\<lambda>row. MenuItem row \<in> set S) restaurant_df"



section \<open>Concrete tables\<close>

definition mk_row :: "string \<Rightarrow> string \<Rightarrow> category \<Rightarrow> rat \<Rightarrow> string \<Rightarrow> rat \<Rightarrow> menu_row" where
  "mk_row r m c p t s =
     \<lparr>RestaurantID = r, MenuItem = m, MenuCategory = c, Price = p, Profitability = t, SellingPrice = s\<rparr>"

definition soup :: menu_row where
  "soup = mk_row ''R1'' ''Soup'' (Label ''Appetizer'') 10 ''High'' 40"

definition steak :: menu_row where
  "steak = mk_row ''R1'' ''Steak'' (Label ''Entree'') 20 ''Medium'' 60"

definition pasta :: menu_row where
  "pasta = mk_row ''R1'' ''Pasta'' (Label ''Entree'') 15 ''Low'' 30"

definition sushi :: menu_row where
  "sushi = mk_row ''R2'' ''Sushi'' (Label ''Entree'') 5 ''High'' 20"

definition nameless :: menu_row where
  "nameless = mk_row ''R1'' ''Special'' Missing 5 ''Low'' 10"

definition blank :: menu_row where
  "blank = mk_row ''R1'' ''Special'' (Label []) 5 ''Low'' 10"

definition ramen :: menu_row where
  "ramen = mk_row ''R2'' ''Ramen'' (Label ''Entree'') 1 ''High'' 400"

definition water :: menu_row where
  "water = mk_row ''R1'' ''Water'' (Label ''Drink'') 0 ''Low'' 0"

definition cbc_missing :: solver where
  "cbc_missing p = Inl PulpSolverError"

definition menu_table :: "menu_row list" where
  "menu_table = [soup, sushi, steak, pasta]"

section \<open>Linear expressions and the reference solver\<close>









lemma fst_terms_subset:
  "fst ` set (concat (map (\<lambda>row. lp_term (MenuItem row) (f row)) rows)) \<subseteq> MenuItem ` set rows"
  by (auto simp: lp_term_def split: if_splits)



lemma constraints_build:
  "constraints (build_problem rows rid b) =
   budget_constraint rows b # map (category_constraint rows 1) (unique (map MenuCategory rows))"
  by (simp add: build_problem_def)







lemma selection_cover:
  "\<exists>S' \<in> set (selections p). \<forall>v \<in> set (lp_vars p). indicator S' v = indicator S v"
proof -
  have "set S \<inter> set (lp_vars p) \<in> set ` set (subseqs (lp_vars p))"
    by (rule subset_subseqs) simp
  then obtain S' where "S' \<in> set (subseqs (lp_vars p))" "set S' = set S \<inter> set (lp_vars p)"
    by auto
  then show ?thesis by (auto simp: selections_def indicator_def)
qed

lemma binary_assignment_is_selection:
  assumes "\<forall>v \<in> set (lp_vars p). x v = 0 \<or> x v = (1::rat)"
  shows "\<exists>S \<in> set (selections p). \<forall>v \<in> set (lp_vars p). x v = indicator S v"
proof -
  obtain S' where "S' \<in> set (selections p)"
    "\<forall>v \<in> set (lp_vars p). indicator S' v = indicator (filter (\<lambda>v. x v = 1) (lp_vars p)) v"
    using selection_cover by blast
  with assms show ?thesis by (intro bexI [of _ S']) (auto simp: indicator_def)
qed

lemma fold_better_mem: "fold (better p) Ss S \<in> set (S # Ss)"
  by (induction Ss arbitrary: S) (auto simp: better_def)

lemma fold_better_ge:
  "expr_value (indicator S) (objective p) \<le> expr_value (indicator (fold (better p) Ss S)) (objective p)"
proof (induction Ss arbitrary: S)
  case Nil show ?case by simp
next
  case (Cons T Ss)
  have "expr_value (indicator S) (objective p) \<le> expr_value (indicator (better p T S)) (objective p)"
    by (simp add: better_def)
  also have "\<dots> \<le> expr_value (indicator (fold (better p) Ss (better p T S))) (objective p)"
    by (rule Cons.IH)
  finally show ?case by simp
qed

lemma fold_better_max:
  "T \<in> set (S # Ss) \<Longrightarrow>
   expr_value (indicator T) (objective p) \<le> expr_value (indicator (fold (better p) Ss S)) (objective p)"
proof (induction Ss arbitrary: S)
  case Nil then show ?case by simp
next
  case (Cons U Ss)
  show ?case
  proof (cases "T \<in> set (better p U S # Ss)")
    case True
    then show ?thesis using Cons.IH [of "better p U S"] by simp
  next
    case False
    with Cons.prems have le: "expr_value (indicator T) (objective p) \<le> expr_value (indicator (better p U S)) (objective p)"
      by (auto simp: better_def split: if_splits)
    also have "\<dots> \<le> expr_value (indicator (fold (better p) Ss (better p U S))) (objective p)"
      by (rule fold_better_ge)
    finally show ?thesis by simp
  qed
qed

lemma exact_solve_exact: "exact_solver exact_solve"
  unfolding exact_solver_def
proof (intro allI impI)
  fix p assume "lp_feasible p"
  then obtain S Ss where fs: "feasible_selections p = S # Ss"
    by (cases "feasible_selections p") (auto simp: lp_feasible_def)
  define B where "B = fold (better p) Ss S"
  have "B \<in> set (feasible_selections p)"
    unfolding B_def fs by (rule fold_better_mem)
  then have B: "B \<in> set (selections p)" "feasible_at p (indicator B)"
    by (auto simp: feasible_selections_def)
  have max: "expr_value (indicator T) (objective p) \<le> expr_value (indicator B) (objective p)"
    if "T \<in> set (selections p)" "feasible_at p (indicator T)" for T
  proof -
    from that have "T \<in> set (S # Ss)" unfolding fs [symmetric] by (simp add: feasible_selections_def)
    then show ?thesis unfolding B_def by (rule fold_better_max)
  qed
  have "exact_solve p = Inr (\<lambda>v. if v \<in> set (lp_vars p) then Some (indicator B v) else None)"
    unfolding B_def by (simp add: exact_solve_def fs)
  moreover have "optimal_solution p (\<lambda>v. if v \<in> set (lp_vars p) then Some (indicator B v) else None)"
    unfolding optimal_solution_def using B max by (intro bexI [of _ B]) auto
  ultimately show "\<exists>vals. exact_solve p = Inr vals \<and> optimal_solution p vals" by blast
qed

lemma cbc_leaving_exact: "exact_solver (cbc_leaving left)"
  using exact_solve_exact by (simp add: exact_solver_def cbc_leaving_def)

section \<open>The built problem in terms of rows\<close>







section \<open>Claims\<close>

text \<open>
  In C1 the solver is assumed exact (\<open>exact_solver\<close>). C2 to C4 run the code with a
  solver that is exact (lemma \<open>cbc_leaving_exact\<close>) and stops on an infeasible model with
  given values. The statements of C5 to C10 hold for every solver. The row-level
  constraints are \<open>within_budget\<close> and \<open>category_minimum_met\<close>, and the filtered rows are
  \<open>filter (\<lambda>row. RestaurantID row = restaurant_id) df\<close>.
\<close>




text \<open>
  C3 (category minimum respected) fails on the code, by the same unread status. On the
  two items \<open>Soup\<close> (Appetizer, price 10) and \<open>Steak\<close> (Entree, price 20) with budget 25 the
  model has no feasible assignment; the solver stops with \<open>Soup = 1/2\<close> and \<open>Steak = 1\<close>,
  and \<open>optimize_menu\<close> returns the non-empty selection \<open>[Steak]\<close>, which has no item of
  the category Appetizer.
\<close>
theorem c3_scenario_a_failing_input:
  "\<not> lp_feasible (build_problem [soup, steak] ''R1'' 25) \<and>
   optimize_menu (cbc_leaving [(''Soup'', 1 / 2), (''Steak'', 1)]) [soup, steak] ''R1'' 25 =
     Inr ([to_item steak], Some 80) \<and>
   Label ''Appetizer'' \<in> set (map MenuCategory (filter (\<lambda>row. RestaurantID row = ''R1'') [soup, steak])) \<and>
   length (filter (\<lambda>item. sel_Category item = Label ''Appetizer'') [to_item steak]) = 0"
proof -
  have "\<not> lp_feasible (build_problem [soup, steak] ''R1'' 25)"
    by code_simp
  moreover have "optimize_menu (cbc_leaving [(''Soup'', 1 / 2), (''Steak'', 1)]) [soup, steak] ''R1'' 25 =
     Inr ([to_item steak], Some 80)"
    by code_simp
  moreover have "Label ''Appetizer'' \<in> set (map MenuCategory (filter (\<lambda>row. RestaurantID row = ''R1'') [soup, steak]))"
    by code_simp
  moreover have "length (filter (\<lambda>item. sel_Category item = Label ''Appetizer'') [to_item steak]) = 0"
    by code_simp
  ultimately show ?thesis by blast
qed

text \<open>
  C4 (objective correctness) fails on the code, by the same unread status: in the case of
  C3 the returned objective is \<open>1/2 * 40 + 60 = 80\<close>, computed from the values the solver
  stopped at, while the selling prices of the returned selection \<open>[Steak]\<close> sum to 60.
  Independently, when no filtered row has a non-zero selling price the objective has no
  term and its value is \<open>None\<close>, also for a feasible model: for the single free item
  \<open>Water\<close> the result is \<open>([Water], None)\<close>, against a recomputed sum of 0.
\<close>
theorem c4_scenario_a_failing_input:
  "optimize_menu (cbc_leaving [(''Soup'', 1 / 2), (''Steak'', 1)]) [soup, steak] ''R1'' 25 =
     Inr ([to_item steak], Some 80) \<and>
   sum_list (map sel_SellingPrice [to_item steak]) = 60 \<and>
   lp_feasible (build_problem [water] ''R1'' 10) \<and>
   optimize_menu exact_solve [water] ''R1'' 10 = Inr ([to_item water], None) \<and>
   sum_list (map sel_SellingPrice [to_item water]) = 0"
  by code_simp

text \<open>
  C5 (restaurant isolation). Two tables that agree on the rows of the requested restaurant
  give the same result, whatever the solver, and every returned item comes from a row of
  the requested restaurant.
\<close>
theorem c5_restaurant_isolation:
  assumes "filter (\<lambda>row. RestaurantID row = restaurant_id) df1 =
           filter (\<lambda>row. RestaurantID row = restaurant_id) df2"
  shows "optimize_menu solve df1 restaurant_id max_budget = optimize_menu solve df2 restaurant_id max_budget \<and>
    (\<forall>sel obj. optimize_menu solve df1 restaurant_id max_budget = Inr (sel, obj) \<longrightarrow>
       set sel \<subseteq> to_item ` {row \<in> set df1. RestaurantID row = restaurant_id})"
proof
  show "optimize_menu solve df1 restaurant_id max_budget = optimize_menu solve df2 restaurant_id max_budget"
    using assms by (simp add: optimize_menu_def)
  show "\<forall>sel obj. optimize_menu solve df1 restaurant_id max_budget = Inr (sel, obj) \<longrightarrow>
       set sel \<subseteq> to_item ` {row \<in> set df1. RestaurantID row = restaurant_id}"
    by (auto simp: optimize_menu_def Let_def selected_items_def split: sum.splits)
qed

theorem c5_restaurant_isolation_witness:
  "filter (\<lambda>row. RestaurantID row = ''R1'') menu_table =
   filter (\<lambda>row. RestaurantID row = ''R1'') [ramen, soup, steak, pasta] \<and>
   optimize_menu exact_solve menu_table ''R1'' 35 = optimize_menu exact_solve [ramen, soup, steak, pasta] ''R1'' 35 \<and>
   optimize_menu exact_solve menu_table ''R1'' 35 = Inr ([to_item soup, to_item steak], Some 100) \<and>
   set [to_item soup, to_item steak] \<subseteq> to_item ` {row \<in> set menu_table. RestaurantID row = ''R1''}"
proof -
  have same: "filter (\<lambda>row. RestaurantID row = ''R1'') menu_table =
      filter (\<lambda>row. RestaurantID row = ''R1'') [ramen, soup, steak, pasta]"
    by code_simp
  have run: "optimize_menu exact_solve menu_table ''R1'' 35 = Inr ([to_item soup, to_item steak], Some 100)"
    by code_simp
  from c5_restaurant_isolation [OF same, of exact_solve 35] same run show ?thesis by simp
qed

text \<open>
  C6, as stated, fails: with no row of restaurant \<open>R1\<close> in the table the model is still
  built and handed to the solver, so a solver that cannot run makes the call fail instead
  of returning an empty result.
\<close>
theorem c6_counterexample:
  "filter (\<lambda>row. RestaurantID row = ''R1'') [sushi, ramen] = [] \<and>
   optimize_menu cbc_missing [sushi, ramen] ''R1'' 100 = Inl PulpSolverError"
  by (simp add: optimize_menu_def cbc_missing_def sushi_def ramen_def mk_row_def)

text \<open>
  C6 (amended). When no row matches \<open>restaurant_id\<close>, \<open>optimize_menu\<close> does not return
  early: it builds the model without variables (empty objective, the budget constraint
  \<open>0 \<le> max_budget\<close>, no category constraint) and hands it to the solver. A solver failure
  is passed on; otherwise the result is an empty selection and no objective value.
\<close>
theorem c6_empty_filter_still_solved:
  assumes "filter (\<lambda>row. RestaurantID row = restaurant_id) df = []"
  shows "optimize_menu solve df restaurant_id max_budget =
    map_sum id (\<lambda>vals. ([], None))
      (solve \<lparr>lp_name = ''Menu_Optimization_'' @ restaurant_id, objective = [],
              constraints = [\<lparr>c_expr = [], c_sense = LpConstraintLE, c_rhs = max_budget\<rparr>]\<rparr>)"
  using assms
  by (simp add: optimize_menu_def Let_def build_problem_def objective_expr_def
      budget_constraint_def unique_def selected_items_def objective_value_def split: sum.splits)

theorem c6_empty_filter_still_solved_witness:
  "filter (\<lambda>row. RestaurantID row = ''R1'') [sushi, ramen] = [] \<and>
   optimize_menu exact_solve [sushi, ramen] ''R1'' 100 = Inr ([], None)"
proof -
  have empty: "filter (\<lambda>row. RestaurantID row = ''R1'') [sushi, ramen] = []"
    by code_simp
  have "map_sum id (\<lambda>vals. ([], None))
      (exact_solve \<lparr>lp_name = ''Menu_Optimization_'' @ ''R1'', objective = [],
              constraints = [\<lparr>c_expr = [], c_sense = LpConstraintLE, c_rhs = 100\<rparr>]\<rparr>) =
      (Inr ([], None) :: error + selected_item list \<times> rat option)"
    by (simp add: exact_solve_def split: list.splits)
  with c6_empty_filter_still_solved [OF empty, of exact_solve 100] empty show ?thesis by simp
qed

text \<open>
  C7, as stated, fails: a negative budget and an unknown restaurant are both passed to the
  solver, and the call returns normally when the solver does.
\<close>
theorem c7_counterexample:
  "\<not> isl (optimize_menu exact_solve menu_table ''R1'' (- 5)) \<and>
   filter (\<lambda>row. RestaurantID row = ''R9'') menu_table = [] \<and>
   \<not> isl (optimize_menu exact_solve menu_table ''R9'' 100)"
  by code_simp

text \<open>
  C7 (amended). \<open>optimize_menu\<close> validates nothing: for every table, restaurant and budget
  it builds the model and hands it to the solver, and it fails exactly when the solver
  fails on that model, with the solver's error. The minimum per category is not an input.
\<close>
theorem c7_only_solver_errors:
  "optimize_menu solve df restaurant_id max_budget = Inl e \<longleftrightarrow>
   solve (build_problem (filter (\<lambda>row. RestaurantID row = restaurant_id) df) restaurant_id max_budget) = Inl e"
  by (simp add: optimize_menu_def Let_def split: sum.splits)

theorem c7_only_solver_errors_witness:
  "optimize_menu cbc_missing menu_table ''R1'' (- 5) = Inl PulpSolverError"
  using c7_only_solver_errors [of cbc_missing menu_table "''R1''" "- 5" PulpSolverError]
  by (simp add: cbc_missing_def)

text \<open>
  C8, as stated, fails: a solved value of \<open>3/4\<close> is at least \<open>1/2\<close>, yet the row is not
  emitted.
\<close>
theorem c8_counterexample:
  "(3 / 4 :: rat) \<ge> 1 / 2 \<and> selected_items [soup] (\<lambda>v. Some (3 / 4)) = []"
  by (simp add: selected_items_def)

text \<open>
  C8 (amended). During result extraction an item is emitted exactly when it comes from a
  filtered row whose decision variable has the solved value 1 (the comparison \<open>== 1\<close> of
  line 56).
\<close>
theorem c8_selected_iff_value_is_one:
  "item \<in> set (selected_items restaurant_df vals) \<longleftrightarrow>
   (\<exists>row \<in> set restaurant_df. vals (MenuItem row) = Some 1 \<and> item = to_item row)"
  by (auto simp: selected_items_def)

theorem c8_selected_iff_value_is_one_witness:
  "to_item soup \<in> set (selected_items [soup, steak] (\<lambda>v. if v = ''Soup'' then Some 1 else Some (3 / 4)))
   \<and> to_item steak \<notin> set (selected_items [soup, steak] (\<lambda>v. if v = ''Soup'' then Some 1 else Some (3 / 4)))"
  using c8_selected_iff_value_is_one [of "to_item soup" "[soup, steak]" "\<lambda>v. if v = ''Soup'' then Some 1 else Some (3 / 4)"]
    c8_selected_iff_value_is_one [of "to_item steak" "[soup, steak]" "\<lambda>v. if v = ''Soup'' then Some 1 else Some (3 / 4)"]
  by (simp add: soup_def steak_def mk_row_def to_item_def)

text \<open>
  C9. A blank label is a category like any other, but a missing one is not: for the
  table with the single row \<open>nameless\<close>, whose category cell is empty, the category
  constraint is built over no variable at all (no row compares equal to NaN), so the model
  has no feasible assignment whatever the budget, although selecting the row would give
  its category one item. The same row with the blank label gives a feasible model.
\<close>
theorem c9_missing_label_failing_input:
  "constraints (build_problem [nameless] ''R1'' 100) =
     [\<lparr>c_expr = [(''Special'', 5)], c_sense = LpConstraintLE, c_rhs = 100\<rparr>,
      \<lparr>c_expr = [], c_sense = LpConstraintGE, c_rhs = 1\<rparr>] \<and>
   \<not> lp_feasible (build_problem [nameless] ''R1'' 100) \<and>
   length (filter (\<lambda>row. MenuCategory row = Missing) (chosen_rows [''Special''] [nameless])) = 1 \<and>
   lp_feasible (build_problem [blank] ''R1'' 100)"
  by code_simp

text \<open>
  C10, as stated, fails for \<open>m = 2\<close>: with two items in one category and a budget that
  pays for only one of them, the call returns one item of that category, and the bound of
  the category constraint is 1.
\<close>
theorem c10_counterexample:
  "optimize_menu exact_solve [steak, pasta] ''R1'' 25 = Inr ([to_item steak], Some 60) \<and>
   length (filter (\<lambda>item. sel_Category item = Label ''Entree'') [to_item steak]) < 2 \<and>
   map c_rhs (tl (constraints (build_problem [steak, pasta] ''R1'' 25))) = [1]"
  by code_simp

text \<open>
  C10 (amended). The lower bound per category is the literal 1 of line 22, not a parameter
  of \<open>optimize_menu\<close>: every constraint of the built problem after the budget constraint
  is a lower bound with right-hand side 1, whatever the table, restaurant and budget.
\<close>
theorem c10_bound_is_literal_one:
  "c \<in> set (tl (constraints (build_problem restaurant_df restaurant_id max_budget))) \<Longrightarrow>
   c_sense c = LpConstraintGE \<and> c_rhs c = 1"
  by (auto simp: constraints_build category_constraint_def)

theorem c10_bound_is_literal_one_witness:
  "c_rhs (category_constraint [steak, pasta] 1 (Label ''Entree'')) = 1"
proof -
  have "category_constraint [steak, pasta] 1 (Label ''Entree'') \<in>
      set (tl (constraints (build_problem [steak, pasta] ''R1'' 25)))"
    by (simp add: constraints_build unique_def steak_def pasta_def mk_row_def)
  from c10_bound_is_literal_one [OF this] show ?thesis by simp
qed

end
